theory Spec2Isabelle
  imports Main
begin

section \<open>Plan resolution of the Atlas service broker (pkg/broker/broker.go)\<close>

text \<open>
  The theory embeds the functions \<^verbatim>\<open>parsePlan\<close>, \<^verbatim>\<open>getInstancePlan\<close>,
  \<^verbatim>\<open>getPlan\<close>, \<^verbatim>\<open>getClient\<close> and \<^verbatim>\<open>GetDashboardURL\<close> of
  \<^verbatim>\<open>pkg/broker/broker.go\<close>. A Go result list \<^verbatim>\<open>(dp *Plan, err error)\<close> is a pair
  of options (\<open>None\<close> is \<^verbatim>\<open>nil\<close>), so that "no Plan" and "no error" can both be
  stated. A nil dereference is the outcome \<open>Panic\<close>. Calls of the logger write
  nothing that the functions read back and are left out.
\<close>

subsection \<open>Values, errors, outcomes\<close>

type_synonym bytes = string

text \<open>
  \<^verbatim>\<open>credentials.APIKey\<close>: the fields \<^verbatim>\<open>getClient\<close> reads.
\<close>

record APIKey =
  OrgID :: string
  PublicKey :: string
  PrivateKey :: string

text \<open>
  Modelled from the spec: the Credential Store of \<^verbatim>\<open>pkg/broker/credentials\<close>, which
  maps an organization identifier to an API key pair; the plan template indexes its
  \<^verbatim>\<open>Projects\<close> table as well.
\<close>

record Credentials =
  Projects :: "string \<Rightarrow> APIKey option"
  Orgs :: "string \<Rightarrow> APIKey option"

text \<open>
  Modelled from the spec: a PlanTemplate (\<^verbatim>\<open>dynamicplans.TemplateContainer\<close>) holds a
  template body, text with placeholder syntax.
\<close>

type_synonym TemplateContainer = string

text \<open>
  A value of Go's \<^verbatim>\<open>interface{}\<close> by its dynamic type: what the state store keeps
  under \<^verbatim>\<open>Parameters\<close>, what a \<^verbatim>\<open>dynamicplans.Context\<close> maps its keys to and what
  the catalog keeps under \<^verbatim>\<open>AdditionalMetadata\<close>. \<open>IMap\<close> is
  \<^verbatim>\<open>map[string]interface{}\<close>. No function of this file inspects a number.
\<close>

datatype iface =
    INil
  | IBool bool
  | INumber int
  | IString string
  | ISlice "iface list"
  | IMap "string \<Rightarrow> iface option"
  | ICredentials Credentials
  | ITemplate TemplateContainer

text \<open>
  Errors keep the constructor call of the source: \<^verbatim>\<open>errors.New\<close>, \<^verbatim>\<open>fmt.Errorf\<close>
  with its format string and its arguments (\<open>S\<close> for a string printed with
  \<^verbatim>\<open>%q\<close>, \<open>T\<close> for a value whose type is printed with \<^verbatim>\<open>%T\<close>),
  \<^verbatim>\<open>errors.Wrap\<close> and \<^verbatim>\<open>errors.Wrapf\<close>. \<open>External\<close> is an error made by a
  collaborator outside this file.
\<close>

datatype arg = S string | T iface

datatype error =
    External string
  | New string
  | Errorf string "arg list"
  | Wrap error string
  | Wrapf error string "arg list"

datatype 'a outcome = Panic | Return 'a

subsection \<open>The Plan\<close>

text \<open>
  \<^verbatim>\<open>mongodbatlas.Project\<close> and \<^verbatim>\<open>dynamicplans.Plan\<close> are declared outside the source
  files at hand; the fields are those of the plan template document
  (\<^verbatim>\<open>name, description, free, apiKey, project{id,name,orgId}, cluster, databaseUsers,
  ipWhitelists\<close>). \<^verbatim>\<open>APIKey\<close>, \<^verbatim>\<open>Project\<close> and \<^verbatim>\<open>Cluster\<close> are pointers.
\<close>

record Project =
  ID :: string
  Name :: string
  OrgID :: string

record Cluster =
  InstanceSizeName :: string

record DatabaseUser =
  Username :: string
  Password :: string
  DatabaseName :: string
  GroupID :: string
  Roles :: "(string \<times> string) list"

record IPWhitelist =
  IPAddress :: string
  Comment :: string
  GroupID :: string

record Plan =
  Name :: string
  Description :: string
  Free :: "bool option"
  APIKey :: "APIKey option"
  Project :: "Project option"
  Cluster :: "Cluster option"
  DatabaseUsers :: "DatabaseUser list"
  IPWhitelists :: "IPWhitelist list"

text \<open>The zero value \<^verbatim>\<open>dynamicplans.Plan{}\<close>.\<close>

definition Plan_zero :: Plan where
  "Plan_zero = \<lparr>Plan.Name = '''', Description = '''', Free = None, APIKey = None,
     Project = None, Cluster = None, DatabaseUsers = [], IPWhitelists = []\<rparr>"

subsection \<open>Context, catalog, broker\<close>

text \<open>
  \<^verbatim>\<open>dynamicplans.Context\<close> is a map that \<^verbatim>\<open>getPlan\<close> compares with \<^verbatim>\<open>nil\<close>: a
  \<open>context option\<close> where it may be nil.
\<close>

type_synonym "context" = "string \<Rightarrow> iface option"

text \<open>
  Modelled from the spec: \<^verbatim>\<open>Context.With\<close> of \<^verbatim>\<open>pkg/broker/dynamicplans\<close> derives a
  copy extended with one more key and never mutates the original.
\<close>

definition With :: "context \<Rightarrow> string \<Rightarrow> iface \<Rightarrow> context" where
  "With ctx k v = ctx(k \<mapsto> v)"

text \<open>
  \<^verbatim>\<open>domain.ServicePlan\<close> of the brokerapi library as far as \<^verbatim>\<open>parsePlan\<close> reads it:
  the metadata of the plan and, in it, the table \<^verbatim>\<open>AdditionalMetadata\<close>. A key that
  the table does not hold reads as nil, which is no \<^verbatim>\<open>TemplateContainer\<close>. The catalog
  is built once at startup, by \<^verbatim>\<open>buildCatalog\<close> outside the source files at hand, and
  maps a plan ID to the plan with its metadata. The \<^verbatim>\<open>Broker\<close> holds the credential
  store, the URLs and the catalog that \<^verbatim>\<open>New\<close> gives it.
\<close>

record ServicePlanMetadata =
  AdditionalMetadata :: "string \<Rightarrow> iface option"

record ServicePlan =
  Metadata :: ServicePlanMetadata

record catalog =
  plans :: "string \<Rightarrow> ServicePlan option"

record Broker =
  credentials :: Credentials
  atlasURL :: string
  realmURL :: string
  catalog :: catalog
  userAgent :: string

text \<open>
  \<^verbatim>\<open>domain.GetInstanceDetailsSpec\<close>, what \<^verbatim>\<open>b.getInstance\<close> returns: the stored
  InstanceRecord, with its loosely typed \<^verbatim>\<open>Parameters\<close>.
\<close>

record GetInstanceDetailsSpec =
  ServiceID :: string
  PlanID :: string
  DashboardURL :: string
  Parameters :: iface

text \<open>\<^verbatim>\<open>url.URL\<close> and \<^verbatim>\<open>url.Userinfo\<close> of Go's \<^verbatim>\<open>net/url\<close>.\<close>

record Userinfo =
  username :: string
  password :: string
  passwordSet :: bool

record URL =
  Scheme :: string
  Opaque :: string
  User :: "Userinfo option"
  Host :: string
  Path :: string
  RawPath :: string
  ForceQuery :: bool
  RawQuery :: string
  Fragment :: string

subsection \<open>Collaborators\<close>

text \<open>
  What the functions call outside the source files at hand is a parameter, one field
  each; a theorem holds for every behaviour of these.
  \<^item> \<open>getInstance\<close>: \<^verbatim>\<open>b.getInstance(ctx, instanceID)\<close>, the read of the state store;
  \<^item> \<open>mapstructure_Decode\<close>: \<^verbatim>\<open>mapstructure.Decode(d, &plan)\<close>; it writes into the
    Plan it is given and returns an error or nil;
  \<^item> \<open>Execute\<close>: \<^verbatim>\<open>tpl.Execute(raw, data)\<close>, returning the bytes written to \<^verbatim>\<open>raw\<close>;
  \<^item> \<open>yaml_Decode\<close>: \<^verbatim>\<open>yaml.NewDecoder(raw).Decode(dp)\<close>;
  \<^item> \<open>json_Marshal\<close>: \<^verbatim>\<open>json.Marshal(ctx)\<close>, whose error \<^verbatim>\<open>parsePlan\<close> drops;
  \<^item> \<open>json_Unmarshal\<close>: \<^verbatim>\<open>json.Unmarshal(pb, &dp)\<close>, which writes into the Plan
    \<^verbatim>\<open>dp\<close> points to (the bytes come from a map that is not nil, so they are never
    the JSON \<^verbatim>\<open>null\<close> that would reset the pointer);
  \<^item> \<open>ByOrg\<close>: \<^verbatim>\<open>b.credentials.ByOrg(orgID)\<close>;
  \<^item> \<open>digest_Client\<close>: \<^verbatim>\<open>digest.NewTransport(user, pass).Client()\<close>;
  \<^item> \<open>mongodbatlas_New\<close>: \<^verbatim>\<open>mongodbatlas.New(hc, mongodbatlas.SetBaseURL(url))\<close>;
  \<^item> \<open>GetOneProjectByName\<close>: \<^verbatim>\<open>client.Projects.GetOneProjectByName(ctx, name)\<close>;
  \<^item> \<open>url_Parse\<close>, \<open>URL_String\<close>: \<^verbatim>\<open>url.Parse\<close> and \<^verbatim>\<open>(*URL).String\<close>;
  \<^item> \<open>Error\<close>: the method \<^verbatim>\<open>Error()\<close> of the interface \<^verbatim>\<open>error\<close>.
  The \<^verbatim>\<open>context.Context\<close> that \<^verbatim>\<open>getInstance\<close> and \<^verbatim>\<open>GetOneProjectByName\<close> receive
  only carries a deadline to them and is part of their behaviour here.
\<close>

record ('hc, 'cl) world =
  getInstance :: "string \<Rightarrow> error + GetInstanceDetailsSpec"
  mapstructure_Decode :: "(string \<Rightarrow> iface option) \<Rightarrow> Plan \<Rightarrow> Plan \<times> error option"
  Execute :: "TemplateContainer \<Rightarrow> context \<Rightarrow> error + bytes"
  yaml_Decode :: "bytes \<Rightarrow> Plan \<Rightarrow> Plan \<times> error option"
  json_Marshal :: "context \<Rightarrow> bytes"
  json_Unmarshal :: "bytes \<Rightarrow> Plan \<Rightarrow> Plan \<times> error option"
  ByOrg :: "Credentials \<Rightarrow> string \<Rightarrow> error + APIKey"
  digest_Client :: "string \<Rightarrow> string \<Rightarrow> error + 'hc"
  mongodbatlas_New :: "'hc \<Rightarrow> string \<Rightarrow> error + 'cl"
  GetOneProjectByName :: "'cl \<Rightarrow> string \<Rightarrow> error + Project"
  url_Parse :: "string \<Rightarrow> error + URL"
  URL_String :: "URL \<Rightarrow> string"
  Error :: "error \<Rightarrow> string"

subsection \<open>parsePlan\<close>

text \<open>
  Lines 86 to 124. The named result \<^verbatim>\<open>dp\<close> is still nil at the first three returns and
  points to the decoded Plan from line 106 on. The error of \<^verbatim>\<open>json.Unmarshal\<close> is
  logged and dropped: line 123 returns \<^verbatim>\<open>dp, nil\<close> on both branches.
\<close>

definition parsePlan ::
  "('hc, 'cl) world \<Rightarrow> Broker \<Rightarrow> context \<Rightarrow> string \<Rightarrow> Plan option \<times> error option" where
  "parsePlan w b ctx planID =
     (case plans (catalog b) planID of
        None \<Rightarrow> (None, Some (Errorf ''plan ID %q not found in catalog'' [S planID]))
      | Some sp \<Rightarrow>
          (case AdditionalMetadata (Metadata sp) ''template'' of
             Some (ITemplate tpl) \<Rightarrow>
               (case Execute w tpl (With ctx ''credentials'' (ICredentials (credentials b))) of
                  Inl err \<Rightarrow> (None, Some err)
                | Inr raw \<Rightarrow>
                    (case yaml_Decode w raw Plan_zero of
                       (dp, Some err) \<Rightarrow> (Some dp, Some err)
                     | (dp, None) \<Rightarrow>
                         (let pb = json_Marshal w ctx in
                          case json_Unmarshal w pb dp of
                            (dp', Some err) \<Rightarrow> (Some dp', None)
                          | (dp', None) \<Rightarrow> (Some dp', None))))
           | _ \<Rightarrow> (None, Some (New ''plan ID %q does not contain a valid plan template''))))"

subsection \<open>getInstancePlan\<close>

text \<open>Lines 126 to 150. The last return hands back \<^verbatim>\<open>&plan\<close> together with the
  error of the decoder, whatever it is.\<close>

definition getInstancePlan ::
  "('hc, 'cl) world \<Rightarrow> Broker \<Rightarrow> string \<Rightarrow> Plan option \<times> error option" where
  "getInstancePlan w b instanceID =
     (case getInstance w instanceID of
        Inl err \<Rightarrow> (None, Some (Wrap err ''cannot fetch instance''))
      | Inr i \<Rightarrow>
          (case Parameters i of
             IMap params \<Rightarrow>
               (case params ''plan'' of
                  None \<Rightarrow> (None, Some (Errorf ''plan not found in instance metadata'' []))
                | Some p \<Rightarrow>
                    (case p of
                       IMap d \<Rightarrow>
                         (case mapstructure_Decode w d Plan_zero of
                            (plan, err) \<Rightarrow> (Some plan, err))
                     | _ \<Rightarrow>
                         (None, Some (Errorf ''instance metadata plan has the wrong type %T''
                                        [T p]))))
           | _ \<Rightarrow>
               (None, Some (Errorf ''instance metadata has the wrong type %T''
                              [T (Parameters i)]))))"

subsection \<open>getPlan\<close>

text \<open>Lines 152 to 177. \<^verbatim>\<open>dp.Project\<close> on line 171 dereferences \<^verbatim>\<open>dp\<close>.\<close>

definition getPlan ::
  "('hc, 'cl) world \<Rightarrow> Broker \<Rightarrow> string \<Rightarrow> string \<Rightarrow> context option
     \<Rightarrow> (Plan option \<times> error option) outcome" where
  "getPlan w b instanceID planID planCtx =
     (case getInstancePlan w b instanceID of
        (dp, None) \<Rightarrow> Return (dp, None)
      | (dp, Some err) \<Rightarrow>
          (case planCtx of
             None \<Rightarrow>
               Return (dp, Some (Wrapf err ''cannot find plan for instance %q'' [S instanceID]))
           | Some ctx \<Rightarrow>
               (case parsePlan w b ctx planID of
                  (dp', Some err') \<Rightarrow> Return (dp', Some err')
                | (None, None) \<Rightarrow> Panic
                | (Some p, None) \<Rightarrow>
                    (if Project p = None
                     then Return (Some p, Some (Errorf ''missing Project in plan definition'' []))
                     else Return (Some p, None)))))"

subsection \<open>getClient\<close>

text \<open>
  Lines 185 to 201, the \<^verbatim>\<open>switch\<close> that chooses the key: the result is the error, or
  the key with the Plan as the first case leaves it. \<^verbatim>\<open>dp.Project.OrgID\<close> dereferences
  \<^verbatim>\<open>dp.Project\<close> in the first case (the assignment) and in the condition of the second.
\<close>

definition getClient_key ::
  "('hc, 'cl) world \<Rightarrow> Broker \<Rightarrow> Plan \<Rightarrow> (error + APIKey \<times> Plan) outcome" where
  "getClient_key w b dp =
     (case APIKey dp of
        Some k \<Rightarrow>
          (case Project dp of
             None \<Rightarrow> Panic
           | Some p \<Rightarrow> Return (Inr (k, dp\<lparr>Project := Some (p\<lparr>Project.OrgID := APIKey.OrgID k\<rparr>)\<rparr>)))
      | None \<Rightarrow>
          (case Project dp of
             None \<Rightarrow> Panic
           | Some p \<Rightarrow>
               (if Project.OrgID p \<noteq> ''''
                then (case ByOrg w (credentials b) (Project.OrgID p) of
                        Inl err \<Rightarrow> Return (Inl err)
                      | Inr key \<Rightarrow> Return (Inr (key, dp)))
                else Return (Inl (New ''template must contain either APIKey or Project.OrgID'')))))"

text \<open>
  Lines 215 to 224, the lookup of the project by name: an error of the lookup is
  overwritten with nil.
\<close>

definition getClient_existing ::
  "('hc, 'cl) world \<Rightarrow> 'cl \<Rightarrow> Plan \<Rightarrow> ('cl option \<times> Plan option \<times> error option) outcome" where
  "getClient_existing w client dp =
     (case Project dp of
        None \<Rightarrow> Panic
      | Some p \<Rightarrow>
          (case GetOneProjectByName w client (Project.Name p) of
             Inr existing \<Rightarrow> Return (Some client, Some (dp\<lparr>Project := Some existing\<rparr>), None)
           | Inl err \<Rightarrow> Return (Some client, Some dp, None)))"

text \<open>Lines 179 to 225.\<close>

definition getClient ::
  "('hc, 'cl) world \<Rightarrow> Broker \<Rightarrow> string \<Rightarrow> string \<Rightarrow> context option
     \<Rightarrow> ('cl option \<times> Plan option \<times> error option) outcome" where
  "getClient w b instanceID planID planCtx =
     (case getPlan w b instanceID planID planCtx of
        Panic \<Rightarrow> Panic
      | Return (dp, Some err) \<Rightarrow> Return (None, dp, Some err)
      | Return (None, None) \<Rightarrow> Panic
      | Return (Some dp, None) \<Rightarrow>
          (case getClient_key w b dp of
             Panic \<Rightarrow> Panic
           | Return (Inl err) \<Rightarrow> Return (None, Some dp, Some err)
           | Return (Inr (key, dp1)) \<Rightarrow>
               (case digest_Client w (PublicKey key) (PrivateKey key) of
                  Inl err \<Rightarrow> Return (None, Some dp1, Some (Wrap err ''cannot create Digest client''))
                | Inr hc \<Rightarrow>
                    (case mongodbatlas_New w hc (atlasURL b) of
                       Inl err \<Rightarrow>
                         Return (None, Some dp1, Some (Wrap err ''cannot create Atlas client''))
                     | Inr client \<Rightarrow> getClient_existing w client dp1))))"

subsection \<open>GetDashboardURL\<close>

text \<open>Lines 244 to 251. \<^verbatim>\<open>fmt.Sprintf\<close> with \<^verbatim>\<open>%s\<close> inserts the string as it is.\<close>

definition GetDashboardURL :: "('hc, 'cl) world \<Rightarrow> Broker \<Rightarrow> string \<Rightarrow> string \<Rightarrow> string" where
  "GetDashboardURL w b groupID clusterName =
     (case url_Parse w (atlasURL b) of
        Inl err \<Rightarrow> Error w err
      | Inr apiURL \<Rightarrow>
          URL_String w (apiURL\<lparr>Path := ''/v2/'' @ groupID\<rparr>) @ ''#clusters/detail/'' @ clusterName)"

section \<open>A concrete broker\<close>

text \<open>
  One catalog, one credential store and one behaviour of the collaborators, on which the
  theorems below are evaluated. The catalog holds \<^verbatim>\<open>full-plan\<close>, the repository's
  sample template, whose \<^verbatim>\<open>apiKey\<close> is the project's key pair (it carries no
  organization id); \<^verbatim>\<open>org-plan\<close>, the same without \<^verbatim>\<open>apiKey\<close>;
  \<^verbatim>\<open>no-key-plan\<close>, with neither \<^verbatim>\<open>apiKey\<close> nor an organization id;
  \<^verbatim>\<open>no-project-plan\<close>, without \<^verbatim>\<open>project\<close>; and \<^verbatim>\<open>bogus\<close>, an entry without
  a template. The state store holds the instance
  \<^verbatim>\<open>stored\<close> and the instance \<^verbatim>\<open>broken\<close>, whose plan does not decode. The remote
  knows one project, \<^verbatim>\<open>live\<close>.
\<close>

definition demo_key :: APIKey where
  "demo_key = \<lparr>APIKey.OrgID = '''', PublicKey = ''pub'', PrivateKey = ''priv''\<rparr>"

definition org_key :: APIKey where
  "org_key = \<lparr>APIKey.OrgID = ''org1'', PublicKey = ''orgpub'', PrivateKey = ''orgpriv''\<rparr>"

definition demo_project :: Project where
  "demo_project = \<lparr>ID = ''p1'', Project.Name = ''demo'', Project.OrgID = ''org1''\<rparr>"

definition live_project :: Project where
  "live_project = \<lparr>ID = ''p9'', Project.Name = ''live'', Project.OrgID = ''org9''\<rparr>"

definition demo_plan :: Plan where
  "demo_plan = \<lparr>Plan.Name = ''full-plan'', Description = ''a full plan'', Free = Some True,
     APIKey = Some demo_key, Project = Some demo_project,
     Cluster = Some \<lparr>InstanceSizeName = ''M20''\<rparr>, DatabaseUsers = [], IPWhitelists = []\<rparr>"

definition org_plan :: Plan where
  "org_plan = demo_plan\<lparr>Plan.Name := ''org-plan'', APIKey := None\<rparr>"

definition no_project_plan :: Plan where
  "no_project_plan = demo_plan\<lparr>Plan.Name := ''no-project-plan'', Project := None\<rparr>"

definition no_key_plan :: Plan where
  "no_key_plan = demo_plan\<lparr>Plan.Name := ''no-key-plan'', APIKey := None,
     Project := Some (demo_project\<lparr>Project.OrgID := ''''\<rparr>)\<rparr>"

definition demo_credentials :: Credentials where
  "demo_credentials = \<lparr>Projects = [''p1'' \<mapsto> demo_key], Orgs = [''org1'' \<mapsto> org_key]\<rparr>"

definition template_plan :: "TemplateContainer \<Rightarrow> ServicePlan" where
  "template_plan tpl = \<lparr>Metadata = \<lparr>AdditionalMetadata = [''template'' \<mapsto> ITemplate tpl]\<rparr>\<rparr>"

definition bogus_plan :: ServicePlan where
  "bogus_plan = \<lparr>Metadata = \<lparr>AdditionalMetadata = Map.empty\<rparr>\<rparr>"

definition demo_catalog :: catalog where
  "demo_catalog = \<lparr>plans =
     [''full-plan'' \<mapsto> template_plan ''name: full-plan'',
      ''org-plan'' \<mapsto> template_plan ''name: org-plan'',
      ''no-key-plan'' \<mapsto> template_plan ''name: no-key-plan'',
      ''no-project-plan'' \<mapsto> template_plan ''name: no-project-plan'',
      ''bogus'' \<mapsto> bogus_plan]\<rparr>"

definition demo_broker :: Broker where
  "demo_broker = \<lparr>credentials = demo_credentials, atlasURL = ''https://cloud.mongodb.com'',
     realmURL = ''https://realm.mongodb.com'', catalog = demo_catalog, userAgent = ''atlas-osb''\<rparr>"

definition demo_context :: "context" where
  "demo_context = [''instance_size'' \<mapsto> IString ''M20'']"

definition demo_instance :: "iface \<Rightarrow> GetInstanceDetailsSpec" where
  "demo_instance plan = \<lparr>ServiceID = ''atlas'', PlanID = ''full-plan'', DashboardURL = '''',
     Parameters = IMap [''plan'' \<mapsto> plan]\<rparr>"

definition demo_url :: URL where
  "demo_url = \<lparr>Scheme = ''https'', Opaque = '''', User = None, Host = ''cloud.mongodb.com'',
     Path = '''', RawPath = '''', ForceQuery = False, RawQuery = '''', Fragment = ''''\<rparr>"

definition demo_world :: "(string \<times> string, (string \<times> string) \<times> string) world" where
  "demo_world = \<lparr>
     getInstance = (\<lambda>i.
       if i = ''stored'' then Inr (demo_instance (IMap [''name'' \<mapsto> IString ''full-plan'']))
       else if i = ''broken'' then Inr (demo_instance (IMap [''name'' \<mapsto> INumber 7]))
       else Inl (External ''instance not found'')),
     mapstructure_Decode = (\<lambda>d plan.
       case d ''name'' of
         Some (IString n) \<Rightarrow> (plan\<lparr>Plan.Name := n, Project := Some demo_project\<rparr>, None)
       | _ \<Rightarrow> (plan, Some (External ''cannot decode''))),
     Execute = (\<lambda>tpl data. Inr tpl),
     yaml_Decode = (\<lambda>raw plan.
       if raw = ''name: full-plan'' then (demo_plan, None)
       else if raw = ''name: org-plan'' then (org_plan, None)
       else if raw = ''name: no-key-plan'' then (no_key_plan, None)
       else if raw = ''name: no-project-plan'' then (no_project_plan, None)
       else (plan, Some (External ''yaml: unexpected document''))),
     json_Marshal = (\<lambda>ctx. ''{}''),
     json_Unmarshal = (\<lambda>pb plan. (plan, None)),
     ByOrg = (\<lambda>creds org.
       case Orgs creds org of
         None \<Rightarrow> Inl (External ''no credentials for organization'')
       | Some k \<Rightarrow> Inr k),
     digest_Client = (\<lambda>user pass. Inr (user, pass)),
     mongodbatlas_New = (\<lambda>hc url. Inr (hc, url)),
     GetOneProjectByName = (\<lambda>client name.
       if name = ''live'' then Inr live_project else Inl (External ''project not found'')),
     url_Parse = (\<lambda>s.
       if s = ''https://cloud.mongodb.com'' then Inr demo_url
       else Inl (External ''parse: invalid URL'')),
     URL_String = (\<lambda>u. Scheme u @ ''://'' @ Host u @ Path u),
     Error = (\<lambda>e. case e of External m \<Rightarrow> m | New m \<Rightarrow> m | _ \<Rightarrow> ''error'')\<rparr>"

text \<open>The same collaborators, with a \<^verbatim>\<open>json.Unmarshal\<close> that fails and leaves the
  Plan as it was.\<close>

definition failing_merge_world :: "(string \<times> string, (string \<times> string) \<times> string) world" where
  "failing_merge_world =
     demo_world\<lparr>json_Unmarshal := (\<lambda>pb plan. (plan, Some (External ''json: cannot unmarshal'')))\<rparr>"

section \<open>Plan catalog and renderer\<close>

text \<open>
  C7. A plan ID that the catalog does not hold makes \<^verbatim>\<open>parsePlan\<close> return the
  not-found error and no Plan; a catalog entry whose metadata holds no template under
  \<^verbatim>\<open>"template"\<close> (no entry, or a value of another type) makes it return an error and
  no Plan as well.
\<close>

theorem parsePlan_no_template:
  "(plans (catalog b) planID = None \<longrightarrow>
      parsePlan w b ctx planID =
        (None, Some (Errorf ''plan ID %q not found in catalog'' [S planID])))
   \<and> (plans (catalog b) planID = Some sp
        \<and> (\<forall>tpl. AdditionalMetadata (Metadata sp) ''template'' \<noteq> Some (ITemplate tpl)) \<longrightarrow>
      parsePlan w b ctx planID =
        (None, Some (New ''plan ID %q does not contain a valid plan template'')))"
  by (auto simp: parsePlan_def split: option.splits iface.splits)

theorem parsePlan_no_template_witness:
  "parsePlan demo_world demo_broker demo_context ''absent'' =
     (None, Some (Errorf ''plan ID %q not found in catalog'' [S ''absent'']))
   \<and> parsePlan demo_world demo_broker demo_context ''bogus'' =
     (None, Some (New ''plan ID %q does not contain a valid plan template''))"
  using parsePlan_no_template [where b = demo_broker and planID = "''absent''"
      and w = demo_world and ctx = demo_context]
    parsePlan_no_template [where b = demo_broker and planID = "''bogus''"
      and sp = bogus_plan and w = demo_world and ctx = demo_context]
  by (simp add: demo_broker_def demo_catalog_def bogus_plan_def)

section \<open>Context merge\<close>

lemma demo_render_full_plan:
  "parsePlan demo_world demo_broker demo_context ''full-plan'' = (Some demo_plan, None)"
  by (simp add: parsePlan_def demo_world_def demo_broker_def demo_catalog_def template_plan_def)

lemma demo_failing_unmarshal:
  "json_Unmarshal failing_merge_world (json_Marshal failing_merge_world demo_context) demo_plan =
     (demo_plan, Some (External ''json: cannot unmarshal''))"
  by (simp add: failing_merge_world_def)

text \<open>
  C2 as the spec states it asks for an error when the overlay of the context fails. On
  the concrete broker with a failing \<^verbatim>\<open>json.Unmarshal\<close>, \<^verbatim>\<open>parsePlan\<close> returns the
  Plan without the overlay and no error.
\<close>

theorem parsePlan_merge_failure_swallowed:
  "json_Unmarshal failing_merge_world (json_Marshal failing_merge_world demo_context) demo_plan =
     (demo_plan, Some (External ''json: cannot unmarshal''))
   \<and> parsePlan failing_merge_world demo_broker demo_context ''full-plan'' = (Some demo_plan, None)"
  by (simp add: parsePlan_def failing_merge_world_def demo_world_def demo_broker_def
      demo_catalog_def template_plan_def)

text \<open>
  C2, amended. When the template renders and decodes and the overlay of the context
  fails, \<^verbatim>\<open>parsePlan\<close> returns the Plan as the failed overlay left it, with a nil
  error: the failure is logged and not returned.
\<close>

theorem parsePlan_merge_failure:
  assumes "plans (catalog b) planID = Some sp"
    and "AdditionalMetadata (Metadata sp) ''template'' = Some (ITemplate tpl)"
    and "Execute w tpl (With ctx ''credentials'' (ICredentials (credentials b))) = Inr raw"
    and "yaml_Decode w raw Plan_zero = (dp, None)"
    and "json_Unmarshal w (json_Marshal w ctx) dp = (dp', Some err)"
  shows "parsePlan w b ctx planID = (Some dp', None)"
  using assms by (simp add: parsePlan_def)

theorem parsePlan_merge_failure_witness:
  "parsePlan failing_merge_world demo_broker demo_context ''full-plan'' = (Some demo_plan, None)"
proof -
  have 1: "plans (catalog demo_broker) ''full-plan'' = Some (template_plan ''name: full-plan'')"
    by (simp add: demo_broker_def demo_catalog_def)
  have 2: "AdditionalMetadata (Metadata (template_plan ''name: full-plan'')) ''template'' =
      Some (ITemplate ''name: full-plan'')"
    by (simp add: template_plan_def)
  have 3: "Execute failing_merge_world ''name: full-plan''
      (With demo_context ''credentials'' (ICredentials (credentials demo_broker))) =
      Inr ''name: full-plan''"
    by (simp add: failing_merge_world_def demo_world_def)
  have 4: "yaml_Decode failing_merge_world ''name: full-plan'' Plan_zero = (demo_plan, None)"
    by (simp add: failing_merge_world_def demo_world_def)
  from parsePlan_merge_failure [OF 1 2 3 4 demo_failing_unmarshal] show ?thesis .
qed

section \<open>Instance plan resolver\<close>

lemma getInstancePlan_render_free:
  "getInstancePlan
     (w\<lparr>Execute := ex, yaml_Decode := yd, json_Marshal := jm, json_Unmarshal := ju\<rparr>)
     (b\<lparr>catalog := cat\<rparr>) instanceID = getInstancePlan w b instanceID"
  by (simp add: getInstancePlan_def split: sum.splits iface.splits option.splits)

lemma demo_unknown_instance:
  "getInstancePlan demo_world demo_broker ''unknown'' =
     (None, Some (Wrap (External ''instance not found'') ''cannot fetch instance''))"
  by (simp add: getInstancePlan_def demo_world_def)

lemma demo_stored_plan:
  "getInstancePlan demo_world demo_broker ''stored'' =
     (Some (Plan_zero\<lparr>Plan.Name := ''full-plan'', Project := Some demo_project\<rparr>), None)"
  by (simp add: getInstancePlan_def demo_world_def demo_instance_def)

lemma demo_broken_record:
  "getInstancePlan demo_world demo_broker ''broken'' =
     (Some Plan_zero, Some (External ''cannot decode''))"
  by (simp add: getInstancePlan_def demo_world_def demo_instance_def)

lemma demo_new_full_plan:
  "getPlan demo_world demo_broker ''unknown'' ''full-plan'' (Some demo_context) =
     Return (Some demo_plan, None)"
  by (simp add: getPlan_def demo_unknown_instance demo_render_full_plan) (simp add: demo_plan_def)

text \<open>
  C8. When \<^verbatim>\<open>getInstancePlan\<close> fails for the instance and the context is nil,
  \<^verbatim>\<open>getPlan\<close> returns that failure wrapped as "cannot find plan for instance"; the
  result is the same whatever the catalog, the template engine and the decoders of the
  render path are, so the render path plays no part in it.
\<close>

theorem getPlan_nil_context:
  assumes "getInstancePlan w b instanceID = (dp, Some err)"
  shows "getPlan w b instanceID planID None =
           Return (dp, Some (Wrapf err ''cannot find plan for instance %q'' [S instanceID]))
         \<and> getPlan
             (w\<lparr>Execute := ex, yaml_Decode := yd, json_Marshal := jm, json_Unmarshal := ju\<rparr>)
             (b\<lparr>catalog := cat\<rparr>) instanceID planID None =
           getPlan w b instanceID planID None"
  using assms by (simp add: getPlan_def getInstancePlan_render_free)

theorem getPlan_nil_context_witness:
  "getPlan demo_world demo_broker ''unknown'' ''full-plan'' None =
     Return (None, Some (Wrapf (Wrap (External ''instance not found'') ''cannot fetch instance'')
                           ''cannot find plan for instance %q'' [S ''unknown'']))"
proof -
  have "getInstancePlan demo_world demo_broker ''unknown'' =
          (None, Some (Wrap (External ''instance not found'') ''cannot fetch instance''))"
    by (simp add: getInstancePlan_def demo_world_def)
  from getPlan_nil_context [OF this] show ?thesis by simp
qed

text \<open>
  C9. When the stored record of the instance decodes without error, \<^verbatim>\<open>getPlan\<close>
  returns the decoded Plan, and two calls for the same instance return the same result
  whatever plan IDs and contexts they are given.
\<close>

theorem getPlan_existing_instance:
  assumes "getInstancePlan w b instanceID = (dp, None)"
  shows "getPlan w b instanceID planID1 planCtx1 = Return (dp, None)
         \<and> getPlan w b instanceID planID2 planCtx2 = getPlan w b instanceID planID1 planCtx1"
  using assms by (simp add: getPlan_def)

theorem getPlan_existing_instance_witness:
  "getPlan demo_world demo_broker ''stored'' ''full-plan'' None =
     Return (Some (Plan_zero\<lparr>Plan.Name := ''full-plan'', Project := Some demo_project\<rparr>), None)
   \<and> getPlan demo_world demo_broker ''stored'' ''bogus'' (Some demo_context) =
       getPlan demo_world demo_broker ''stored'' ''full-plan'' None"
  using getPlan_existing_instance [OF demo_stored_plan] by simp

text \<open>
  C1 as the spec states it asks for an error whenever the stored record does not
  decode. On the concrete broker the record of \<^verbatim>\<open>broken\<close> exists and does not decode,
  a context is supplied, and \<^verbatim>\<open>getPlan\<close> returns the Plan rendered from the catalog
  with no error.
\<close>

theorem getPlan_undecodable_record_rerenders:
  "getInstance demo_world ''broken'' = Inr (demo_instance (IMap [''name'' \<mapsto> INumber 7]))
   \<and> getInstancePlan demo_world demo_broker ''broken'' =
       (Some Plan_zero, Some (External ''cannot decode''))
   \<and> getPlan demo_world demo_broker ''broken'' ''full-plan'' (Some demo_context) =
       Return (Some demo_plan, None)"
  by (simp add: getPlan_def demo_broken_record demo_render_full_plan demo_plan_def)
    (simp add: demo_world_def)

text \<open>
  C1, amended. When the stored record exists and does not decode, \<^verbatim>\<open>getPlan\<close>
  returns the wrapped failure only if the context is nil; with a context it goes on to
  the new-instance path and returns what rendering the plan from the catalog gives: the
  error of \<^verbatim>\<open>parsePlan\<close>, the missing-Project error, or the rendered Plan.
\<close>

theorem getPlan_undecodable_record:
  assumes "getInstance w instanceID = Inr i"
    and "getInstancePlan w b instanceID = (dp, Some err)"
  shows "getPlan w b instanceID planID None =
           Return (dp, Some (Wrapf err ''cannot find plan for instance %q'' [S instanceID]))
         \<and> (parsePlan w b ctx planID = (dp', Some err') \<longrightarrow>
              getPlan w b instanceID planID (Some ctx) = Return (dp', Some err'))
         \<and> (parsePlan w b ctx planID = (Some p, None) \<and> Project p = None \<longrightarrow>
              getPlan w b instanceID planID (Some ctx) =
                Return (Some p, Some (Errorf ''missing Project in plan definition'' [])))
         \<and> (parsePlan w b ctx planID = (Some p, None) \<and> Project p \<noteq> None \<longrightarrow>
              getPlan w b instanceID planID (Some ctx) = Return (Some p, None))"
  using assms(2) by (auto simp: getPlan_def split: option.splits)

theorem getPlan_undecodable_record_witness:
  "getPlan demo_world demo_broker ''broken'' ''full-plan'' None =
     Return (Some Plan_zero,
       Some (Wrapf (External ''cannot decode'') ''cannot find plan for instance %q'' [S ''broken'']))
   \<and> getPlan demo_world demo_broker ''broken'' ''bogus'' (Some demo_context) =
       Return (None, Some (New ''plan ID %q does not contain a valid plan template''))
   \<and> getPlan demo_world demo_broker ''broken'' ''no-project-plan'' (Some demo_context) =
       Return (Some no_project_plan, Some (Errorf ''missing Project in plan definition'' []))
   \<and> getPlan demo_world demo_broker ''broken'' ''full-plan'' (Some demo_context) =
       Return (Some demo_plan, None)"
proof -
  have i: "getInstance demo_world ''broken'' = Inr (demo_instance (IMap [''name'' \<mapsto> INumber 7]))"
    by (simp add: demo_world_def)
  have bogus: "parsePlan demo_world demo_broker demo_context ''bogus'' =
      (None, Some (New ''plan ID %q does not contain a valid plan template''))"
    by (simp add: parsePlan_def demo_broker_def demo_catalog_def bogus_plan_def)
  have no_project: "parsePlan demo_world demo_broker demo_context ''no-project-plan'' =
      (Some no_project_plan, None)"
    by (simp add: parsePlan_def demo_world_def demo_broker_def demo_catalog_def
        template_plan_def)
  have nil: "Project no_project_plan = None"
    by (simp add: no_project_plan_def)
  have proj: "Project demo_plan \<noteq> None"
    by (simp add: demo_plan_def)
  from getPlan_undecodable_record [OF i demo_broken_record, where planID = "''full-plan''"
      and ctx = demo_context and p = demo_plan]
    getPlan_undecodable_record [OF i demo_broken_record, where planID = "''no-project-plan''"
      and ctx = demo_context and p = no_project_plan]
    getPlan_undecodable_record [OF i demo_broken_record, where planID = "''bogus''"
      and ctx = demo_context and dp' = None
      and err' = "New ''plan ID %q does not contain a valid plan template''"]
    bogus no_project nil proj demo_render_full_plan
  show ?thesis by simp
qed

section \<open>Credential router\<close>

text \<open>
  C4. For a Plan with an explicit \<^verbatim>\<open>APIKey\<close> (and a Project, whatever its
  organization id), the key chosen is that key itself, the organization id of the Project
  is overwritten with the key's, and the result does not depend on the credential store
  nor on its lookup by organization; in \<^verbatim>\<open>getClient\<close> the client is built from the
  public and private parts of that key, and it is the Plan with the overwritten
  organization id that goes on to the lookup of the project.
\<close>

theorem getClient_key_explicit:
  assumes "APIKey dp = Some k" and "Project dp = Some p"
  shows "getClient_key w b dp =
           Return (Inr (k, dp\<lparr>Project := Some (p\<lparr>Project.OrgID := APIKey.OrgID k\<rparr>)\<rparr>))
         \<and> getClient_key (w\<lparr>ByOrg := lookup\<rparr>) (b\<lparr>credentials := creds\<rparr>) dp =
             getClient_key w b dp
         \<and> (getPlan w b instanceID planID planCtx = Return (Some dp, None)
              \<and> digest_Client w (PublicKey k) (PrivateKey k) = Inr hc
              \<and> mongodbatlas_New w hc (atlasURL b) = Inr client \<longrightarrow>
             getClient w b instanceID planID planCtx =
               getClient_existing w client
                 (dp\<lparr>Project := Some (p\<lparr>Project.OrgID := APIKey.OrgID k\<rparr>)\<rparr>))"
  using assms by (simp add: getClient_def getClient_key_def)

theorem getClient_key_explicit_witness:
  "getClient_key demo_world demo_broker demo_plan =
     Return (Inr (demo_key, demo_plan\<lparr>Project := Some (demo_project\<lparr>Project.OrgID := ''''\<rparr>)\<rparr>))
   \<and> getClient demo_world demo_broker ''unknown'' ''full-plan'' (Some demo_context) =
       getClient_existing demo_world ((''pub'', ''priv''), ''https://cloud.mongodb.com'')
         (demo_plan\<lparr>Project := Some (demo_project\<lparr>Project.OrgID := ''''\<rparr>)\<rparr>)"
proof -
  have k: "APIKey demo_plan = Some demo_key" and p: "Project demo_plan = Some demo_project"
    by (simp_all add: demo_plan_def)
  have hc: "digest_Client demo_world (PublicKey demo_key) (PrivateKey demo_key) =
      Inr (''pub'', ''priv'')"
    by (simp add: demo_world_def demo_key_def)
  have client: "mongodbatlas_New demo_world (''pub'', ''priv'') (atlasURL demo_broker) =
      Inr ((''pub'', ''priv''), ''https://cloud.mongodb.com'')"
    by (simp add: demo_world_def demo_broker_def)
  from getClient_key_explicit [OF k p, where w = demo_world and b = demo_broker
      and instanceID = "''unknown''" and planID = "''full-plan''"
      and planCtx = "Some demo_context" and hc = "(''pub'', ''priv'')"
      and client = "((''pub'', ''priv''), ''https://cloud.mongodb.com'')"]
    demo_new_full_plan hc client
  show ?thesis
    by (simp add: demo_key_def)
qed

lemma demo_render_no_key_plan:
  "parsePlan demo_world demo_broker demo_context ''no-key-plan'' = (Some no_key_plan, None)"
  by (simp add: parsePlan_def demo_world_def demo_broker_def demo_catalog_def template_plan_def)

text \<open>
  C6. For a Plan without \<^verbatim>\<open>APIKey\<close> whose Project has an empty organization id,
  the choice of the key fails with the error "template must contain either APIKey or
  Project.OrgID" and yields no key, and \<^verbatim>\<open>getClient\<close> returns that error with a nil
  client.
\<close>

theorem getClient_missing_credential:
  assumes "APIKey dp = None" and "Project dp = Some p" and "Project.OrgID p = ''''"
  shows "getClient_key w b dp =
           Return (Inl (New ''template must contain either APIKey or Project.OrgID''))
         \<and> (getPlan w b instanceID planID planCtx = Return (Some dp, None) \<longrightarrow>
              getClient w b instanceID planID planCtx =
                Return (None, Some dp,
                  Some (New ''template must contain either APIKey or Project.OrgID'')))"
  using assms by (simp add: getClient_def getClient_key_def)

theorem getClient_missing_credential_witness:
  "getClient demo_world demo_broker ''unknown'' ''no-key-plan'' (Some demo_context) =
     Return (None, Some no_key_plan,
       Some (New ''template must contain either APIKey or Project.OrgID''))"
proof -
  have plan: "getPlan demo_world demo_broker ''unknown'' ''no-key-plan'' (Some demo_context) =
      Return (Some no_key_plan, None)"
    by (simp add: getPlan_def demo_unknown_instance demo_render_no_key_plan)
      (simp add: no_key_plan_def)
  have k: "APIKey no_key_plan = None"
    and p: "Project no_key_plan = Some (demo_project\<lparr>Project.OrgID := ''''\<rparr>)"
    and org: "Project.OrgID (demo_project\<lparr>Project.OrgID := ''''\<rparr>) = ''''"
    by (simp_all add: no_key_plan_def)
  from getClient_missing_credential [OF k p org, where w = demo_world and b = demo_broker
      and instanceID = "''unknown''" and planID = "''no-key-plan''"
      and planCtx = "Some demo_context"] plan
  show ?thesis by simp
qed

section \<open>Remote reconciler\<close>



section \<open>Resolution as a whole\<close>




text \<open>
  The existing-instance path returns the stored Plan without the check for a Project
  that the new-instance path makes; \<^verbatim>\<open>getClient\<close> then dereferences the nil
  \<^verbatim>\<open>dp.Project\<close>.
\<close>

lemma getClient_stored_plan_without_Project:
  assumes "getInstancePlan w b instanceID = (Some dp, None)" and "Project dp = None"
  shows "getClient w b instanceID planID planCtx = Panic"
  using assms by (simp add: getClient_def getPlan_def getClient_key_def split: option.splits)








section \<open>Dashboard URL\<close>

text \<open>
  C10. \<^verbatim>\<open>GetDashboardURL\<close> returns a string on every input: when the Atlas URL of
  the broker parses, the rendering of that URL with its path set to \<^verbatim>\<open>/v2/<groupID>\<close>,
  followed by \<^verbatim>\<open>#clusters/detail/<clusterName>\<close>; when it does not parse, the text of
  the parse error.
\<close>

theorem GetDashboardURL_result:
  "(url_Parse w (atlasURL b) = Inr apiURL \<longrightarrow>
      GetDashboardURL w b groupID clusterName =
        URL_String w (apiURL\<lparr>Path := ''/v2/'' @ groupID\<rparr>) @ ''#clusters/detail/'' @ clusterName)
   \<and> (url_Parse w (atlasURL b) = Inl err \<longrightarrow>
      GetDashboardURL w b groupID clusterName = Error w err)"
  by (simp add: GetDashboardURL_def)

theorem GetDashboardURL_result_witness:
  "GetDashboardURL demo_world demo_broker ''g1'' ''c1'' =
     ''https://cloud.mongodb.com/v2/g1#clusters/detail/c1''
   \<and> GetDashboardURL demo_world (demo_broker\<lparr>atlasURL := '':''\<rparr>) ''g1'' ''c1'' =
     ''parse: invalid URL''"
  using GetDashboardURL_result [where w = demo_world and b = demo_broker
      and groupID = "''g1''" and clusterName = "''c1''"
      and apiURL = demo_url]
    GetDashboardURL_result [where w = demo_world and b = "demo_broker\<lparr>atlasURL := '':''\<rparr>"
      and groupID = "''g1''" and clusterName = "''c1''" and err = "External ''parse: invalid URL''"]
  by (simp add: demo_world_def demo_broker_def demo_url_def)

end
